theory Spec2Isabelle
  imports Main "HOL-Library.Sublist"
begin

section \<open>The publishing helper \<^verbatim>\<open>run.py\<close>\<close>

text \<open>
  The script is a straight-line pipeline: two directory checks, four kinds of child
  processes (rsync, the image helper, hugo, git), a counter file that is read,
  incremented and written back, and a \<^verbatim>\<open>try/except\<close> around the whole of it.

  Scope of the model.
  \<^item> Text is \<open>string\<close>. The constants of the script and everything the claims are about
    are ASCII; the three non-ASCII symbols of the printed lines are written as their
    UTF-8 bytes. On ASCII text \<open>py_strip\<close> and \<open>py_int\<close> are Python's \<^verbatim>\<open>str.strip\<close> and
    \<^verbatim>\<open>int\<close>. Beyond ASCII Python knows more white space (U+00A0, U+0085 and others) and
    more decimal digits (U+0661 reads as 1), which the model does not: whatever the
    model reads as a number Python reads as the same number, but text that the model
    rejects may be a number or blank to Python. A statement that the conversion fails
    is therefore made for ASCII text only (\<open>isascii\<close>).
  \<^item> Python integers are \<open>int\<close>; the interpreter's configurable cap on the number of
    digits of a conversion is not modelled.
  \<^item> The file system is a map from paths to directories and text files. Permissions,
    links and the parent directories of a path are not modelled.
  \<^item> What a child process does is not in the source: it is the parameter \<open>exec\<close>, a
    function from the command line, the working directory and the world to the way the
    child ended and the world it left. Every child ends (\<^verbatim>\<open>subprocess.run\<close> waits for
    it without a timeout; a child that never ends is outside the model).
  \<^item> The world is an extensible record, so whatever else the tools own (the
    repository's index and history, say) lives in the extension, which the script never
    touches.
\<close>

subsection \<open>Exceptions, child processes, observable events\<close>

datatype exn =
    SystemExit string
  | CalledProcessError int
  | ValueError
  | OSError

text \<open>How a child process ended: its return code and what it wrote to standard output,
  or it could not be started at all.\<close>

datatype child =
    Exited int string
  | LaunchFailed

text \<open>Everything the script does that can be seen from outside, in the order in which it
  does it: what it prints, which children it starts and how they end, and what it asks
  of and writes to the file system.\<close>

datatype event =
    Print string
  | Stderr string
  | Traceback exn
  | Spawn "string list" "string option" child
  | Sleep
  | IsDir string bool
  | Exists string bool
  | ReadText string string
  | WriteText string string

datatype node = Dir | File string

record fs =
  files :: "string \<Rightarrow> node option"

type_synonym 'a world = "'a fs_scheme"
type_synonym 'a st = "'a world \<times> event list"
type_synonym 'a exec = "string list \<Rightarrow> string option \<Rightarrow> 'a world \<Rightarrow> child \<times> 'a world"

subsection \<open>Configuration\<close>

text \<open>\<^verbatim>\<open>Path / segment\<close> on a POSIX path that does not end in a separator.\<close>

definition pjoin :: "string \<Rightarrow> string \<Rightarrow> string" where
  "pjoin p q = p @ ''/'' @ q"

definition OBS_POSTS :: string where
  "OBS_POSTS = ''/Users/omkakkad/Obsidian/Om/posts''"

definition BLOG_ROOT :: string where
  "BLOG_ROOT = ''/Users/omkakkad/Obsidian/OmBlog''"

definition DEST_POSTS :: string where
  "DEST_POSTS = pjoin (pjoin BLOG_ROOT ''content'') ''posts''"

definition IMAGES_PY :: string where
  "IMAGES_PY = pjoin BLOG_ROOT ''images.py''"

definition COUNTER_FN :: string where
  "COUNTER_FN = pjoin BLOG_ROOT ''.commit_counter''"

subsection \<open>Python's \<^verbatim>\<open>str.strip\<close>, \<^verbatim>\<open>int\<close>, \<^verbatim>\<open>str\<close> and \<^verbatim>\<open>' '.join\<close>\<close>

text \<open>The ASCII characters for which \<^verbatim>\<open>str.isspace\<close> holds: tab, line feed, vertical
  tab, form feed, carriage return, the four separators 0x1C to 0x1F, and the space.
  Python's \<^verbatim>\<open>str.strip\<close> removes the white space of Unicode beyond these as well; the
  model is exact on ASCII text.\<close>

definition py_isspace :: "char \<Rightarrow> bool" where
  "py_isspace c = (let n = (of_char c :: nat) in (9 \<le> n \<and> n \<le> 13) \<or> (28 \<le> n \<and> n \<le> 32))"

definition py_strip :: "string \<Rightarrow> string" where
  "py_strip s = rev (dropWhile py_isspace (rev (dropWhile py_isspace s)))"


text \<open>The ASCII decimal digits. Python's \<^verbatim>\<open>int\<close> reads the decimal digits of other
  scripts too; again the model is exact on ASCII text.\<close>

definition is_digit :: "char \<Rightarrow> bool" where
  "is_digit c = (let n = (of_char c :: nat) in 48 \<le> n \<and> n \<le> 57)"

definition digit_val :: "char \<Rightarrow> nat" where
  "digit_val c = of_char c - 48"

definition digit_chr :: "nat \<Rightarrow> char" where
  "digit_chr n = ''0123456789'' ! n"

text \<open>The digit scanner of \<^verbatim>\<open>int(text)\<close> in base 10: digits, with single underscores
  allowed between two digits. The flag says that the previous character was an
  underscore.\<close>

fun scan_digits :: "nat \<Rightarrow> bool \<Rightarrow> string \<Rightarrow> nat option" where
  "scan_digits acc prev_us [] = (if prev_us then None else Some acc)"
| "scan_digits acc prev_us (c # cs) =
     (if c = CHR ''_'' then (if prev_us then None else scan_digits acc True cs)
      else if is_digit c then scan_digits (10 * acc + digit_val c) False cs
      else None)"

definition parse_digits :: "string \<Rightarrow> nat option" where
  "parse_digits s =
     (case s of
        [] \<Rightarrow> None
      | c # cs \<Rightarrow> if c = CHR ''_'' then None else scan_digits 0 False s)"

text \<open>\<^verbatim>\<open>int(text)\<close>: surrounding white space is ignored, then an optional sign, then the
  digits. Anything else is a \<^verbatim>\<open>ValueError\<close>.\<close>

definition py_int :: "string \<Rightarrow> exn + int" where
  "py_int s =
     (case py_strip s of
        [] \<Rightarrow> Inl ValueError
      | c # cs \<Rightarrow>
          if c = CHR ''-'' then
            (case parse_digits cs of None \<Rightarrow> Inl ValueError | Some n \<Rightarrow> Inr (- int n))
          else if c = CHR ''+'' then
            (case parse_digits cs of None \<Rightarrow> Inl ValueError | Some n \<Rightarrow> Inr (int n))
          else
            (case parse_digits (c # cs) of None \<Rightarrow> Inl ValueError | Some n \<Rightarrow> Inr (int n)))"

fun dec_nat :: "nat \<Rightarrow> string" where
  "dec_nat n = (if n < 10 then [digit_chr n] else dec_nat (n div 10) @ [digit_chr (n mod 10)])"

declare dec_nat.simps [simp del]

text \<open>\<^verbatim>\<open>str(i)\<close> of an integer.\<close>

definition py_str :: "int \<Rightarrow> string" where
  "py_str i = (if i < 0 then CHR ''-'' # dec_nat (nat (- i)) else dec_nat (nat i))"

text \<open>\<^verbatim>\<open>' '.join(words)\<close>.\<close>

fun join_sp :: "string list \<Rightarrow> string" where
  "join_sp [] = []"
| "join_sp [x] = x"
| "join_sp (x # y # ys) = x @ '' '' @ join_sp (y # ys)"

subsection \<open>The printed lines\<close>

text \<open>\<^verbatim>\<open>print\<close> adds the final line feed itself; \<open>Print\<close> carries the text it is given.
  0x1B is the escape character of the colour codes, and the three byte triples are the
  UTF-8 encodings of the check mark, the cross mark and the arrow.\<close>

definition echo_line :: "string list \<Rightarrow> string" where
  "echo_line cmd = [CHR 0x0A, CHR 0x1B] @ ''[96m$ '' @ join_sp cmd @ [CHR 0x1B] @ ''[0m''"

definition done_line :: "string \<Rightarrow> string \<Rightarrow> string" where
  "done_line commit_msg branch =
     [CHR 0x0A, CHR 0xE2, CHR 0x9C, CHR 0x85] @ ''  Done!  ('' @ commit_msg @ '' ''
       @ [CHR 0xE2, CHR 0x86, CHR 0x92] @ '' pushed to '' @ branch @ '')''"

definition failed_line :: "int \<Rightarrow> string" where
  "failed_line rc =
     [CHR 0x0A, CHR 0xE2, CHR 0x9D, CHR 0x8C] @ ''  Command failed with exit-code '' @ py_str rc"

subsection \<open>Helpers of the script\<close>

text \<open>Sequencing with exceptions: the first exception ends the sequence, and the world
  and the events of the steps already made stay as they are.\<close>

definition then_do :: "(exn + 'a) \<times> 's \<Rightarrow> ('a \<Rightarrow> 's \<Rightarrow> (exn + 'b) \<times> 's) \<Rightarrow> (exn + 'b) \<times> 's" where
  "then_do r k = (case r of (Inl e, s) \<Rightarrow> (Inl e, s) | (Inr a, s) \<Rightarrow> k a s)"

definition print :: "string \<Rightarrow> 'a st \<Rightarrow> (exn + unit) \<times> 'a st" where
  "print line = (\<lambda>(w, tr). (Inr (), (w, tr @ [Print line])))"

definition sleep :: "'a st \<Rightarrow> (exn + unit) \<times> 'a st" where
  "sleep = (\<lambda>(w, tr). (Inr (), (w, tr @ [Sleep])))"

text \<open>The four methods of \<^verbatim>\<open>pathlib.Path\<close> that the script calls. Reading a directory
  and writing over one fail with an \<^verbatim>\<open>OSError\<close>.\<close>

definition is_dir :: "string \<Rightarrow> 'a st \<Rightarrow> (exn + bool) \<times> 'a st" where
  "is_dir p = (\<lambda>(w, tr).
     (let b = (files w p = Some Dir) in (Inr b, (w, tr @ [IsDir p b]))))"

definition exists :: "string \<Rightarrow> 'a st \<Rightarrow> (exn + bool) \<times> 'a st" where
  "exists p = (\<lambda>(w, tr).
     (let b = (files w p \<noteq> None) in (Inr b, (w, tr @ [Exists p b]))))"

definition read_text :: "string \<Rightarrow> 'a st \<Rightarrow> (exn + string) \<times> 'a st" where
  "read_text p = (\<lambda>(w, tr).
     case files w p of
       Some (File content) \<Rightarrow> (Inr content, (w, tr @ [ReadText p content]))
     | _ \<Rightarrow> (Inl OSError, (w, tr)))"

definition write_text :: "string \<Rightarrow> string \<Rightarrow> 'a st \<Rightarrow> (exn + unit) \<times> 'a st" where
  "write_text p content = (\<lambda>(w, tr).
     case files w p of
       Some Dir \<Rightarrow> (Inl OSError, (w, tr))
     | _ \<Rightarrow> (Inr (), (w\<lparr>files := (files w)(p \<mapsto> File content)\<rparr>, tr @ [WriteText p content])))"

text \<open>\<^verbatim>\<open>subprocess.run(cmd, cwd=cwd, check=True)\<close> and \<^verbatim>\<open>subprocess.check_output\<close>:
  both wait for the child and raise \<^verbatim>\<open>CalledProcessError\<close> on a return code other than
  zero; the second returns what the child wrote. A child that cannot be started is an
  \<^verbatim>\<open>OSError\<close>. The output of a child is text already, so \<^verbatim>\<open>decode()\<close> is the identity
  in \<open>main\<close>.\<close>

definition check :: "child \<Rightarrow> exn + string" where
  "check r =
     (case r of
        LaunchFailed \<Rightarrow> Inl OSError
      | Exited rc out \<Rightarrow> if rc \<noteq> 0 then Inl (CalledProcessError rc) else Inr out)"

definition subprocess :: "'a exec \<Rightarrow> string list \<Rightarrow> string option \<Rightarrow> 'a st \<Rightarrow> (exn + string) \<times> 'a st" where
  "subprocess exec cmd cwd = (\<lambda>(w, tr).
     case exec cmd cwd w of (r, w') \<Rightarrow> (check r, (w', tr @ [Spawn cmd cwd r])))"

definition run :: "'a exec \<Rightarrow> string list \<Rightarrow> string option \<Rightarrow> 'a st \<Rightarrow> (exn + unit) \<times> 'a st" where
  "run exec cmd cwd s =
     then_do (print (echo_line cmd) s) (\<lambda>_ s1.
     then_do (subprocess exec cmd cwd s1) (\<lambda>_ s2. (Inr (), s2)))"

definition check_output :: "'a exec \<Rightarrow> string list \<Rightarrow> string option \<Rightarrow> 'a st \<Rightarrow> (exn + string) \<times> 'a st" where
  "check_output exec cmd cwd s = subprocess exec cmd cwd s"

definition next_commit_msg :: "'a st \<Rightarrow> (exn + string) \<times> 'a st" where
  "next_commit_msg s =
     then_do (exists COUNTER_FN s) (\<lambda>present s1.
     then_do (if present
              then then_do (read_text COUNTER_FN s1) (\<lambda>content s2.
                     (let t = py_strip content in (if t = [] then Inr 0 else py_int t, s2)))
              else (Inr 0, s1)) (\<lambda>last_n s3.
     (let new = last_n + 1 in
      then_do (write_text COUNTER_FN (py_str new) s3) (\<lambda>_ s4.
      (Inr (''Post update '' @ py_str new), s4)))))"

subsection \<open>The pipeline\<close>

definition rsync_cmd :: "string list" where
  "rsync_cmd = [''rsync'', ''-av'', ''--delete'', OBS_POSTS @ ''/'', DEST_POSTS]"

definition images_cmd :: "string list" where
  "images_cmd = [''python3'', IMAGES_PY]"

definition hugo_cmd :: "string list" where
  "hugo_cmd = [''hugo'', ''--gc'', ''--minify'', ''-b'', ''http://localhost'']"

definition add_cmd :: "string list" where
  "add_cmd = [''git'', ''add'', ''.'']"

definition commit_cmd :: "string \<Rightarrow> string list" where
  "commit_cmd commit_msg = [''git'', ''commit'', ''-m'', commit_msg]"

definition branch_cmd :: "string list" where
  "branch_cmd = [''git'', ''rev-parse'', ''--abbrev-ref'', ''HEAD'']"

definition push_cmd :: "string \<Rightarrow> string list" where
  "push_cmd branch = [''git'', ''push'', ''origin'', branch]"

definition main :: "'a exec \<Rightarrow> 'a st \<Rightarrow> (exn + unit) \<times> 'a st" where
  "main exec s0 =
     then_do (is_dir OBS_POSTS s0) (\<lambda>obs_ok sa.
     if \<not> obs_ok then (Inl (SystemExit (''Obsidian posts path not found: '' @ OBS_POSTS)), sa)
     else
     then_do (is_dir BLOG_ROOT sa) (\<lambda>blog_ok sb.
     if \<not> blog_ok then (Inl (SystemExit (''Hugo project path not found: '' @ BLOG_ROOT)), sb)
     else
     then_do (run exec rsync_cmd None sb) (\<lambda>_ s1.
     then_do (sleep s1) (\<lambda>_ s2.
     then_do (exists IMAGES_PY s2) (\<lambda>helper s2a.
     then_do (if helper
              then then_do (run exec images_cmd (Some BLOG_ROOT) s2a) (\<lambda>_ s. sleep s)
              else (Inr (), s2a)) (\<lambda>_ s3.
     then_do (run exec hugo_cmd (Some BLOG_ROOT) s3) (\<lambda>_ s4.
     then_do (sleep s4) (\<lambda>_ s5.
     then_do (run exec add_cmd (Some BLOG_ROOT) s5) (\<lambda>_ s6.
     then_do (next_commit_msg s6) (\<lambda>commit_msg s7.
     then_do (run exec (commit_cmd commit_msg) (Some BLOG_ROOT) s7) (\<lambda>_ s8.
     then_do (check_output exec branch_cmd (Some BLOG_ROOT) s8) (\<lambda>out s9.
     (let branch = py_strip out in
      then_do (run exec (push_cmd branch) (Some BLOG_ROOT) s9) (\<lambda>_ s10.
      print (done_line commit_msg branch) s10))))))))))))))"

text \<open>The \<^verbatim>\<open>__main__\<close> guard and the interpreter around it. The handler catches
  \<^verbatim>\<open>CalledProcessError\<close> only, prints its line, and the script then runs off its end:
  exit status 0. \<^verbatim>\<open>SystemExit\<close> with a text writes the text to standard error and
  exits with status 1. Any other exception reaches the interpreter, which prints the
  traceback and exits with status 1. The result is the exit status, the world left
  behind and the events of the run.\<close>

definition guard :: "(exn + unit) \<times> 'a st \<Rightarrow> nat \<times> 'a world \<times> event list" where
  "guard res =
     (case res of
        (Inr _, (w, tr)) \<Rightarrow> (0, w, tr)
      | (Inl (CalledProcessError rc), (w, tr)) \<Rightarrow> (0, w, tr @ [Print (failed_line rc)])
      | (Inl (SystemExit msg), (w, tr)) \<Rightarrow> (1, w, tr @ [Stderr msg])
      | (Inl e, (w, tr)) \<Rightarrow> (1, w, tr @ [Traceback e]))"

definition script :: "'a exec \<Rightarrow> 'a world \<Rightarrow> nat \<times> 'a world \<times> event list" where
  "script exec w0 = guard (main exec (w0, []))"

subsection \<open>Reading a run\<close>

text \<open>A child failed when it ended with a return code other than zero or did not start.\<close>

definition failed :: "child \<Rightarrow> bool" where
  "failed r = (case r of Exited rc out \<Rightarrow> rc \<noteq> 0 | LaunchFailed \<Rightarrow> True)"

text \<open>The actions of a run are what it does to the world outside: the commands it
  starts and the files it writes, in order.\<close>

datatype action =
    Run "string list" "string option"
  | Save string string

fun action_of :: "event \<Rightarrow> action option" where
  "action_of (Spawn cmd cwd r) = Some (Run cmd cwd)"
| "action_of (WriteText p v) = Some (Save p v)"
| "action_of _ = None"

definition actions :: "event list \<Rightarrow> action list" where
  "actions tr = List.map_filter action_of tr"

fun is_git :: "action \<Rightarrow> bool" where
  "is_git (Run cmd cwd) = (take 1 cmd = [''git''])"
| "is_git (Save p v) = False"

text \<open>The order of the pipeline as the specification lists it, for a run with or without
  the image helper, the counter text \<open>v\<close> and the branch \<open>b\<close>.\<close>

definition plan :: "bool \<Rightarrow> string \<Rightarrow> string \<Rightarrow> action list" where
  "plan helper v b =
     [Run rsync_cmd None]
     @ (if helper then [Run images_cmd (Some BLOG_ROOT)] else [])
     @ [Run hugo_cmd (Some BLOG_ROOT),
        Run add_cmd (Some BLOG_ROOT),
        Save COUNTER_FN v,
        Run (commit_cmd (''Post update '' @ v)) (Some BLOG_ROOT),
        Run branch_cmd (Some BLOG_ROOT),
        Run (push_cmd b) (Some BLOG_ROOT)]"

text \<open>The number that a counter file stands for, read the way \<open>next_commit_msg\<close> reads
  it: no file and a blank file are zero.\<close>

definition stored_value :: "node option \<Rightarrow> int option" where
  "stored_value x =
     (case x of
        None \<Rightarrow> Some 0
      | Some Dir \<Rightarrow> None
      | Some (File content) \<Rightarrow>
          (let t = py_strip content in
           if t = [] then Some 0
           else (case py_int t of Inl e \<Rightarrow> None | Inr n \<Rightarrow> Some n)))"

text \<open>What a run wrote to the counter file, the messages of the commits it started, the
  branches it pushed, and what a command that ended wrote to its standard output.\<close>

definition saved :: "event list \<Rightarrow> string list" where
  "saved tr = concat (map (\<lambda>e. case e of WriteText p v \<Rightarrow> [v] | _ \<Rightarrow> []) tr)"

definition committed :: "event list \<Rightarrow> string list" where
  "committed tr =
     concat (map (\<lambda>e. case e of
                         Spawn cmd cwd r \<Rightarrow>
                           if take 3 cmd = [''git'', ''commit'', ''-m''] \<and> length cmd = 4
                           then [cmd ! 3] else []
                       | _ \<Rightarrow> []) tr)"

definition pushed :: "event list \<Rightarrow> string list" where
  "pushed tr =
     concat (map (\<lambda>e. case e of
                         Spawn cmd cwd r \<Rightarrow>
                           if take 3 cmd = [''git'', ''push'', ''origin''] \<and> length cmd = 4
                           then [cmd ! 3] else []
                       | _ \<Rightarrow> []) tr)"

definition outputs :: "string list \<Rightarrow> event list \<Rightarrow> string list" where
  "outputs cmd tr =
     concat (map (\<lambda>e. case e of
                         Spawn c cwd (Exited rc out) \<Rightarrow> if c = cmd then [out] else []
                       | _ \<Rightarrow> []) tr)"

subsection \<open>The repository as the version-control client sees it\<close>

text \<open>The script never looks into the repository. For the claims that speak of what a
  commit holds, the world is extended by the two copies of the counter file that the
  client keeps: the staged one and the one of the last commit. The client leaves the
  counter alone when committing, asking for the branch and pushing do not touch the
  counter file of the working tree. It keeps snapshots when, besides, the staged copy
  is the file as staging leaves it, a commit records the staged copy, and asking for
  the branch and pushing do not change what the last commit holds.\<close>

record repo = fs +
  index_counter :: "node option"
  head_counter :: "node option"

definition leaves_counter :: "'a exec \<Rightarrow> bool" where
  "leaves_counter exec =
     (\<forall>cwd w.
        (\<forall>m. files (snd (exec (commit_cmd m) cwd w)) COUNTER_FN = files w COUNTER_FN) \<and>
        files (snd (exec branch_cmd cwd w)) COUNTER_FN = files w COUNTER_FN \<and>
        (\<forall>b. files (snd (exec (push_cmd b) cwd w)) COUNTER_FN = files w COUNTER_FN))"

definition snapshots :: "(string list \<Rightarrow> string option \<Rightarrow> 'z repo_scheme \<Rightarrow> child \<times> 'z repo_scheme) \<Rightarrow> bool" where
  "snapshots exec =
     (leaves_counter exec \<and>
      (\<forall>cwd w. index_counter (snd (exec add_cmd cwd w)) =
                files (snd (exec add_cmd cwd w)) COUNTER_FN) \<and>
      (\<forall>m cwd w. head_counter (snd (exec (commit_cmd m) cwd w)) = index_counter w) \<and>
      (\<forall>cwd w. head_counter (snd (exec branch_cmd cwd w)) = head_counter w) \<and>
      (\<forall>b cwd w. head_counter (snd (exec (push_cmd b) cwd w)) = head_counter w))"

subsection \<open>Sample worlds and tools\<close>

text \<open>A site with both directories and a counter file, with and without the helper
  script; tools that all succeed, where the mirror copies one note and the client
  answers \<^verbatim>\<open>main\<close>; the same tools with one command line that exits with a given code;
  and a client that keeps snapshots.\<close>

definition site :: "string \<Rightarrow> fs" where
  "site counter = \<lparr>files = [OBS_POSTS \<mapsto> Dir, BLOG_ROOT \<mapsto> Dir, COUNTER_FN \<mapsto> File counter]\<rparr>"

definition fresh_site :: fs where
  "fresh_site = \<lparr>files = [OBS_POSTS \<mapsto> Dir, BLOG_ROOT \<mapsto> Dir, IMAGES_PY \<mapsto> File []]\<rparr>"

definition tools :: "string list \<Rightarrow> int \<Rightarrow> 'a exec" where
  "tools broken rc cmd cwd w =
     (if broken \<noteq> [] \<and> take (length broken) cmd = broken then (Exited rc [], w)
      else if cmd = rsync_cmd
        then (Exited 0 [], w\<lparr>files := (files w)(pjoin DEST_POSTS ''note.md'' \<mapsto> File ''text'')\<rparr>)
      else if cmd = branch_cmd then (Exited 0 (''main'' @ [CHR 0x0A]), w)
      else (Exited 0 [], w))"

definition repo_site :: "string \<Rightarrow> repo" where
  "repo_site counter =
     \<lparr>files = [OBS_POSTS \<mapsto> Dir, BLOG_ROOT \<mapsto> Dir, COUNTER_FN \<mapsto> File counter],
      index_counter = None, head_counter = None\<rparr>"

definition git_tools :: "string list \<Rightarrow> string option \<Rightarrow> repo \<Rightarrow> child \<times> repo" where
  "git_tools cmd cwd w =
     (if cmd = add_cmd then (Exited 0 [], w\<lparr>index_counter := files w COUNTER_FN\<rparr>)
      else if take 3 cmd = [''git'', ''commit'', ''-m'']
        then (Exited 0 [], w\<lparr>head_counter := index_counter w\<rparr>)
      else if cmd = branch_cmd then (Exited 0 (''main'' @ [CHR 0x0A]), w)
      else (Exited 0 [], w))"

section \<open>Facts about the text conversions\<close>

lemma is_digit_digit_chr: "n < 10 \<Longrightarrow> is_digit (digit_chr n) \<and> digit_val (digit_chr n) = n \<and> \<not> py_isspace (digit_chr n) \<and> digit_chr n \<noteq> CHR ''_'' \<and> digit_chr n \<noteq> CHR ''-'' \<and> digit_chr n \<noteq> CHR ''+''"
proof -
  assume "n < 10"
  then have "n \<in> {0,1,2,3,4,5,6,7,8,9}" by auto
  then show ?thesis
    by (auto simp: is_digit_def digit_chr_def digit_val_def py_isspace_def)
qed

lemma dec_nat_nonempty: "dec_nat n \<noteq> []"
  by (subst dec_nat.simps) simp

lemma dec_nat_last: "last (dec_nat n) = digit_chr (n mod 10)"
  by (subst dec_nat.simps) simp

lemma dec_nat_hd: "\<exists>d < 10. hd (dec_nat n) = digit_chr d"
proof (induction n rule: dec_nat.induct)
  case (1 n)
  show ?case
  proof (cases "n < 10")
    case True
    then show ?thesis by (subst dec_nat.simps) auto
  next
    case False
    with 1 obtain d where "d < 10" "hd (dec_nat (n div 10)) = digit_chr d" by auto
    with False show ?thesis by (subst dec_nat.simps) (auto simp: dec_nat_nonempty)
  qed
qed

lemma scan_digits_snoc:
  "scan_digits acc b xs = Some m \<Longrightarrow> d < 10 \<Longrightarrow> scan_digits acc b (xs @ [digit_chr d]) = Some (10 * m + d)"
  by (induction acc b xs rule: scan_digits.induct) (auto simp: is_digit_digit_chr split: if_splits)

lemma scan_digits_dec_nat: "scan_digits 0 False (dec_nat n) = Some n"
proof (induction n rule: dec_nat.induct)
  case (1 n)
  show ?case
  proof (cases "n < 10")
    case True
    then show ?thesis by (subst dec_nat.simps) (simp add: is_digit_digit_chr)
  next
    case False
    with 1 have "scan_digits 0 False (dec_nat (n div 10)) = Some (n div 10)" by simp
    from scan_digits_snoc [OF this, of "n mod 10"] False show ?thesis
      by (subst dec_nat.simps) simp
  qed
qed

lemma parse_digits_dec_nat: "parse_digits (dec_nat n) = Some n"
proof -
  obtain d where d: "d < 10" "hd (dec_nat n) = digit_chr d" using dec_nat_hd by blast
  obtain c cs where cs: "dec_nat n = c # cs" using dec_nat_nonempty by (cases "dec_nat n") auto
  with d have "c \<noteq> CHR ''_''" using is_digit_digit_chr by auto
  with cs show ?thesis using scan_digits_dec_nat [of n] by (simp add: parse_digits_def)
qed

lemma py_strip_id: "s \<noteq> [] \<Longrightarrow> \<not> py_isspace (hd s) \<Longrightarrow> \<not> py_isspace (last s) \<Longrightarrow> py_strip s = s"
proof -
  assume a: "s \<noteq> []" "\<not> py_isspace (hd s)" "\<not> py_isspace (last s)"
  then have "dropWhile py_isspace s = s" by (cases s) auto
  moreover from a have "dropWhile py_isspace (rev s) = rev s" by (cases "rev s") (auto simp: hd_rev)
  ultimately show ?thesis by (simp add: py_strip_def)
qed

lemma py_strip_dec_nat: "py_strip (dec_nat n) = dec_nat n"
proof -
  obtain d where d: "d < 10" "hd (dec_nat n) = digit_chr d" using dec_nat_hd by blast
  show ?thesis
    by (rule py_strip_id) (simp_all add: dec_nat_nonempty dec_nat_last d is_digit_digit_chr)
qed

lemma py_strip_py_str: "py_strip (py_str i) = py_str i"
proof (cases "i < 0")
  case True
  have "\<not> py_isspace CHR ''-''" by (simp add: py_isspace_def)
  then show ?thesis using True
    by (intro py_strip_id) (simp_all add: py_str_def dec_nat_nonempty dec_nat_last is_digit_digit_chr)
next
  case False
  then show ?thesis by (simp add: py_str_def py_strip_dec_nat)
qed

lemma py_str_nonempty: "py_str i \<noteq> []"
  by (simp add: py_str_def dec_nat_nonempty)

lemma py_int_py_str: "py_int (py_str i) = Inr i"
proof (cases "i < 0")
  case True
  have "py_strip (py_str i) = CHR ''-'' # dec_nat (nat (- i))"
    using True py_strip_py_str [of i] by (simp add: py_str_def)
  then show ?thesis using True by (simp add: py_int_def parse_digits_dec_nat)
next
  case False
  obtain d where d: "d < 10" "hd (dec_nat (nat i)) = digit_chr d" using dec_nat_hd by blast
  obtain c cs where cs: "dec_nat (nat i) = c # cs" using dec_nat_nonempty by (cases "dec_nat (nat i)") auto
  with d have c: "c \<noteq> CHR ''-''" "c \<noteq> CHR ''+''" using is_digit_digit_chr by auto
  have "py_strip (py_str i) = c # cs" using False cs py_strip_dec_nat [of "nat i"] by (simp add: py_str_def)
  moreover have "parse_digits (c # cs) = Some (nat i)" using parse_digits_dec_nat [of "nat i"] cs by simp
  ultimately show ?thesis using False c by (simp add: py_int_def)
qed

lemma py_strip_idem: "py_strip (py_strip s) = py_strip s"
proof (cases "py_strip s = []")
  case True
  have "py_strip [] = []" by (simp add: py_strip_def)
  with True show ?thesis by simp
next
  case False
  let ?a = "dropWhile py_isspace s"
  let ?b = "dropWhile py_isspace (rev ?a)"
  from False have b: "?b \<noteq> []" by (simp add: py_strip_def)
  then have hb: "\<not> py_isspace (hd ?b)" using hd_dropWhile by blast
  have s: "py_strip s = rev ?b" by (simp add: py_strip_def)
  from b have a: "?a \<noteq> []" by (cases "dropWhile py_isspace s") simp_all
  then have ha: "\<not> py_isspace (hd ?a)" using hd_dropWhile by blast
  have "last (rev ?b) = hd ?b" using b by (simp add: last_rev)
  then have l: "\<not> py_isspace (last (py_strip s))" using hb s by simp
  have "\<exists>xs. rev ?a = xs @ ?b" by (metis takeWhile_dropWhile_id)
  then obtain xs where "rev ?a = xs @ ?b" by blast
  then have "?a = rev ?b @ rev xs" by (metis rev_append rev_rev_ident)
  then have "hd ?a = hd (rev ?b)" using b by (metis hd_append2 rev_is_Nil_conv)
  then have h: "\<not> py_isspace (hd (py_strip s))" using ha s by simp
  from py_strip_id [OF False h l] show ?thesis .
qed

lemma py_int_error: "py_int s = Inl e \<Longrightarrow> e = ValueError"
  by (auto simp: py_int_def split: list.splits if_splits option.splits)

lemma py_str_1: "py_str 1 = ''1''"
  by (simp add: py_str_def dec_nat.simps digit_chr_def)

lemma stored_value_None: "stored_value None = Some 0"
  by (simp add: stored_value_def)

lemma stored_value_py_str: "stored_value (Some (File (py_str n))) = Some n"
  by (simp add: stored_value_def py_strip_py_str py_str_nonempty py_int_py_str)

section \<open>Running the pipeline step by step\<close>

text \<open>Each rule takes one step of a sequence that is known to end in \<open>res\<close>: either the
  step raises and \<open>res\<close> is known, or the rest of the sequence goes on from the world and
  the events that the step leaves. Applied until nothing is left, the rules list every
  way in which a run can go.\<close>

lemma then_do_runE:
  assumes "then_do (run exec cmd cwd (w, tr)) k = res"
  obtains
    (launch) "fst (exec cmd cwd w) = LaunchFailed"
      "res = (Inl OSError,
              (snd (exec cmd cwd w), tr @ [Print (echo_line cmd), Spawn cmd cwd LaunchFailed]))"
  | (nonzero) rc out where "fst (exec cmd cwd w) = Exited rc out" "rc \<noteq> 0"
      "res = (Inl (CalledProcessError rc),
              (snd (exec cmd cwd w), tr @ [Print (echo_line cmd), Spawn cmd cwd (Exited rc out)]))"
  | (ok) out where "fst (exec cmd cwd w) = Exited 0 out"
      "k () (snd (exec cmd cwd w), tr @ [Print (echo_line cmd), Spawn cmd cwd (Exited 0 out)]) = res"
  using assms
  by (cases "exec cmd cwd w"; cases "fst (exec cmd cwd w)")
     (auto simp: run_def subprocess_def print_def then_do_def check_def split: if_splits)

lemma then_do_check_outputE:
  assumes "then_do (check_output exec cmd cwd (w, tr)) k = res"
  obtains
    (launch) "fst (exec cmd cwd w) = LaunchFailed"
      "res = (Inl OSError, (snd (exec cmd cwd w), tr @ [Spawn cmd cwd LaunchFailed]))"
  | (nonzero) rc out where "fst (exec cmd cwd w) = Exited rc out" "rc \<noteq> 0"
      "res = (Inl (CalledProcessError rc),
              (snd (exec cmd cwd w), tr @ [Spawn cmd cwd (Exited rc out)]))"
  | (ok) out where "fst (exec cmd cwd w) = Exited 0 out"
      "k out (snd (exec cmd cwd w), tr @ [Spawn cmd cwd (Exited 0 out)]) = res"
  using assms
  by (cases "exec cmd cwd w"; cases "fst (exec cmd cwd w)")
     (auto simp: check_output_def subprocess_def then_do_def check_def split: if_splits)

lemma then_do_sleepE:
  assumes "then_do (sleep (w, tr)) k = res"
  obtains "k () (w, tr @ [Sleep]) = res"
  using assms by (simp add: sleep_def then_do_def)

lemma sleepE:
  assumes "sleep (w, tr) = res"
  obtains "res = (Inr (), (w, tr @ [Sleep]))"
  using assms by (auto simp add: sleep_def)

lemma printE:
  assumes "print line (w, tr) = res"
  obtains "res = (Inr (), (w, tr @ [Print line]))"
  using assms by (auto simp add: print_def)

lemma then_do_is_dirE:
  assumes "then_do (is_dir p (w, tr)) k = res"
  obtains (yes) "files w p = Some Dir" "k True (w, tr @ [IsDir p True]) = res"
  | (no) "files w p \<noteq> Some Dir" "k False (w, tr @ [IsDir p False]) = res"
  using assms by (cases "files w p = Some Dir") (auto simp add: is_dir_def then_do_def Let_def)

lemma then_do_existsE:
  assumes "then_do (exists p (w, tr)) k = res"
  obtains (yes) "files w p \<noteq> None" "k True (w, tr @ [Exists p True]) = res"
  | (no) "files w p = None" "k False (w, tr @ [Exists p False]) = res"
  using assms by (cases "files w p = None") (auto simp add: exists_def then_do_def Let_def)

lemma then_do_assocE:
  assumes "then_do (then_do x f) k = res"
  obtains "then_do x (\<lambda>a s. then_do (f a s) k) = res"
  using assms by (simp add: then_do_def split: prod.splits sum.splits)

lemma then_do_InrE:
  assumes "then_do (Inr a, s) k = res"
  obtains "k a s = res"
  using assms by (simp add: then_do_def)

lemma stopE:
  assumes "(Inl e, s) = res"
  obtains "res = (Inl e, s)"
  using assms by simp

lemma then_do_next_commit_msgE:
  assumes "then_do (next_commit_msg (w, tr)) k = res"
  obtains
    (isdir) "files w COUNTER_FN = Some Dir"
      "res = (Inl OSError, (w, tr @ [Exists COUNTER_FN True]))"
  | (bad) content where "files w COUNTER_FN = Some (File content)"
      "py_strip content \<noteq> []" "py_int (py_strip content) = Inl ValueError"
      "res = (Inl ValueError, (w, tr @ [Exists COUNTER_FN True, ReadText COUNTER_FN content]))"
  | (absent) "files w COUNTER_FN = None"
      "k (''Post update '' @ py_str 1)
         (w\<lparr>files := (files w)(COUNTER_FN \<mapsto> File (py_str 1))\<rparr>,
          tr @ [Exists COUNTER_FN False, WriteText COUNTER_FN (py_str 1)]) = res"
  | (present) content n where "files w COUNTER_FN = Some (File content)"
      "stored_value (Some (File content)) = Some n"
      "k (''Post update '' @ py_str (n + 1))
         (w\<lparr>files := (files w)(COUNTER_FN \<mapsto> File (py_str (n + 1)))\<rparr>,
          tr @ [Exists COUNTER_FN True, ReadText COUNTER_FN content,
                WriteText COUNTER_FN (py_str (n + 1))]) = res"
proof (cases "files w COUNTER_FN")
  case None
  with assms absent show ?thesis
    by (simp add: next_commit_msg_def exists_def write_text_def then_do_def Let_def)
next
  case (Some nd)
  show ?thesis
  proof (cases nd)
    case Dir
    with Some assms isdir show ?thesis
      by (simp add: next_commit_msg_def exists_def read_text_def then_do_def Let_def)
  next
    case (File content)
    show ?thesis
    proof (cases "py_strip content = []")
      case True
      with File Some assms present [of content 0] show ?thesis
        by (simp add: next_commit_msg_def exists_def read_text_def write_text_def then_do_def
            Let_def stored_value_def)
    next
      case False
      show ?thesis
      proof (cases "py_int (py_strip content)")
        case (Inl e)
        with py_int_error have "py_int (py_strip content) = Inl ValueError" by blast
        with False File Some assms bad [of content] show ?thesis
          by (simp add: next_commit_msg_def exists_def read_text_def then_do_def Let_def)
      next
        case (Inr n)
        with False File Some assms present [of content n] show ?thesis
          by (simp add: next_commit_msg_def exists_def read_text_def write_text_def then_do_def
              Let_def stored_value_def)
      qed
    qed
  qed
qed

lemma if_TrueE:
  assumes "(if True then x else y) = res"
  obtains "x = res"
  using assms by simp

lemma if_FalseE:
  assumes "(if False then x else y) = res"
  obtains "y = res"
  using assms by simp

lemma if_not_TrueE:
  assumes "(if \<not> True then x else y) = res"
  obtains "y = res"
  using assms by simp

lemma if_not_FalseE:
  assumes "(if \<not> False then x else y) = res"
  obtains "x = res"
  using assms by simp

lemma then_do_if_TrueE:
  assumes "then_do (if True then x else y) k = res"
  obtains "then_do x k = res"
  using assms by simp

lemma then_do_if_FalseE:
  assumes "then_do (if False then x else y) k = res"
  obtains "then_do y k = res"
  using assms by simp

lemmas stepsE = then_do_runE then_do_check_outputE then_do_sleepE sleepE printE then_do_is_dirE
  then_do_existsE then_do_assocE then_do_InrE then_do_next_commit_msgE stopE
  if_TrueE if_FalseE if_not_TrueE if_not_FalseE then_do_if_TrueE then_do_if_FalseE

lemma script_run:
  assumes "script exec w0 = out"
  obtains res where "main exec (w0, []) = res" "out = guard res"
  using assms by (simp add: script_def)

subsection \<open>The command lines and paths, told apart\<close>

lemma rsync_cmd_literal:
  "[''rsync'', ''-av'', ''--delete'', ''/Users/omkakkad/Obsidian/Om/posts/'',
    ''/Users/omkakkad/Obsidian/OmBlog/content/posts''] = rsync_cmd"
  by (simp add: rsync_cmd_def OBS_POSTS_def BLOG_ROOT_def DEST_POSTS_def pjoin_def)

lemma images_cmd_literal:
  "[''python3'', ''/Users/omkakkad/Obsidian/OmBlog/images.py''] = images_cmd"
  by (simp add: images_cmd_def BLOG_ROOT_def IMAGES_PY_def pjoin_def)

lemma BLOG_ROOT_literal: "''/Users/omkakkad/Obsidian/OmBlog'' = BLOG_ROOT"
  by (simp add: BLOG_ROOT_def)

lemma paths_differ: "IMAGES_PY \<noteq> COUNTER_FN" "COUNTER_FN \<noteq> IMAGES_PY"
  by (simp_all add: IMAGES_PY_def COUNTER_FN_def pjoin_def)

lemmas cmd_defs = rsync_cmd_def images_cmd_def hugo_cmd_def add_cmd_def commit_cmd_def
  branch_cmd_def push_cmd_def

lemmas path_defs = OBS_POSTS_def BLOG_ROOT_def DEST_POSTS_def IMAGES_PY_def COUNTER_FN_def pjoin_def

lemma prog_of_cmd:
  "take 1 rsync_cmd = [''rsync'']" "take 1 images_cmd = [''python3'']"
  "take 1 hugo_cmd = [''hugo'']" "take 1 add_cmd = [''git'']"
  "take 1 (commit_cmd m) = [''git'']" "take 1 branch_cmd = [''git'']"
  "take 1 (push_cmd b) = [''git'']"
  by (simp_all add: cmd_defs)

lemma cmds_differ:
  "rsync_cmd \<noteq> images_cmd" "rsync_cmd \<noteq> hugo_cmd" "rsync_cmd \<noteq> add_cmd"
  "rsync_cmd \<noteq> commit_cmd m" "rsync_cmd \<noteq> branch_cmd" "rsync_cmd \<noteq> push_cmd b"
  "images_cmd \<noteq> rsync_cmd" "images_cmd \<noteq> hugo_cmd" "images_cmd \<noteq> add_cmd"
  "images_cmd \<noteq> commit_cmd m" "images_cmd \<noteq> branch_cmd" "images_cmd \<noteq> push_cmd b"
  "hugo_cmd \<noteq> rsync_cmd" "hugo_cmd \<noteq> images_cmd" "hugo_cmd \<noteq> add_cmd"
  "hugo_cmd \<noteq> commit_cmd m" "hugo_cmd \<noteq> branch_cmd" "hugo_cmd \<noteq> push_cmd b"
  "add_cmd \<noteq> rsync_cmd" "add_cmd \<noteq> images_cmd" "add_cmd \<noteq> hugo_cmd"
  "add_cmd \<noteq> commit_cmd m" "add_cmd \<noteq> branch_cmd" "add_cmd \<noteq> push_cmd b"
  "commit_cmd m \<noteq> rsync_cmd" "commit_cmd m \<noteq> images_cmd" "commit_cmd m \<noteq> hugo_cmd"
  "commit_cmd m \<noteq> add_cmd" "commit_cmd m \<noteq> branch_cmd" "commit_cmd m \<noteq> push_cmd b"
  "branch_cmd \<noteq> rsync_cmd" "branch_cmd \<noteq> images_cmd" "branch_cmd \<noteq> hugo_cmd"
  "branch_cmd \<noteq> add_cmd" "branch_cmd \<noteq> commit_cmd m" "branch_cmd \<noteq> push_cmd b"
  "push_cmd b \<noteq> rsync_cmd" "push_cmd b \<noteq> images_cmd" "push_cmd b \<noteq> hugo_cmd"
  "push_cmd b \<noteq> add_cmd" "push_cmd b \<noteq> commit_cmd m" "push_cmd b \<noteq> branch_cmd"
  by (simp_all add: cmd_defs)

lemma commit_cmd_inject: "(commit_cmd m = commit_cmd m') = (m = m')"
  by (simp add: commit_cmd_def)

lemma push_cmd_inject: "(push_cmd b = push_cmd b') = (b = b')"
  by (simp add: push_cmd_def)

section \<open>The claims\<close>

subsection \<open>The commit counter\<close>

text \<open>
  Claim C2. When the counter file is absent, or holds nothing but white space, the
  counter operation returns \<^verbatim>\<open>Post update 1\<close> and leaves the file holding \<^verbatim>\<open>1\<close>. When
  the file holds the decimal text of \<open>N\<close>, or any text that \<^verbatim>\<open>int\<close> reads as \<open>N\<close>, it
  returns \<^verbatim>\<open>Post update\<close> followed by \<open>N + 1\<close> and replaces the content of the file by
  the decimal text of \<open>N + 1\<close>; every other path of the world is as before. In
  particular \<^verbatim>\<open>41\<close> gives \<^verbatim>\<open>Post update 42\<close> and the file \<^verbatim>\<open>42\<close>.
\<close>

theorem counter_increment:
  "((files w COUNTER_FN = None \<or> (\<exists>c. files w COUNTER_FN = Some (File c) \<and> py_strip c = [])) \<longrightarrow>
      fst (next_commit_msg (w, tr)) = Inr ''Post update 1''
      \<and> fst (snd (next_commit_msg (w, tr))) = w\<lparr>files := (files w)(COUNTER_FN \<mapsto> File ''1'')\<rparr>)
   \<and> (files w COUNTER_FN = Some (File (py_str N)) \<longrightarrow>
      fst (next_commit_msg (w, tr)) = Inr (''Post update '' @ py_str (N + 1))
      \<and> fst (snd (next_commit_msg (w, tr))) =
          w\<lparr>files := (files w)(COUNTER_FN \<mapsto> File (py_str (N + 1)))\<rparr>)
   \<and> (files w COUNTER_FN = Some (File ''41'') \<longrightarrow>
      fst (next_commit_msg (w, tr)) = Inr ''Post update 42''
      \<and> fst (snd (next_commit_msg (w, tr))) = w\<lparr>files := (files w)(COUNTER_FN \<mapsto> File ''42'')\<rparr>)
   \<and> (\<forall>c. files w COUNTER_FN = Some (File c) \<and> py_int c = Inr N \<longrightarrow>
      fst (next_commit_msg (w, tr)) = Inr (''Post update '' @ py_str (N + 1))
      \<and> fst (snd (next_commit_msg (w, tr))) =
          w\<lparr>files := (files w)(COUNTER_FN \<mapsto> File (py_str (N + 1)))\<rparr>)"
proof -
  have absent: "files w COUNTER_FN = None \<Longrightarrow>
      fst (next_commit_msg (w, tr)) = Inr ''Post update 1''
      \<and> fst (snd (next_commit_msg (w, tr))) = w\<lparr>files := (files w)(COUNTER_FN \<mapsto> File ''1'')\<rparr>"
    using py_str_1
    by (simp add: next_commit_msg_def exists_def write_text_def then_do_def Let_def)
  have blank: "files w COUNTER_FN = Some (File c) \<Longrightarrow> py_strip c = [] \<Longrightarrow>
      fst (next_commit_msg (w, tr)) = Inr ''Post update 1''
      \<and> fst (snd (next_commit_msg (w, tr))) = w\<lparr>files := (files w)(COUNTER_FN \<mapsto> File ''1'')\<rparr>" for c
    using py_str_1
    by (simp add: next_commit_msg_def exists_def read_text_def write_text_def then_do_def Let_def)
  have parsed: "files w COUNTER_FN = Some (File c) \<Longrightarrow> py_int c = Inr n \<Longrightarrow>
      fst (next_commit_msg (w, tr)) = Inr (''Post update '' @ py_str (n + 1))
      \<and> fst (snd (next_commit_msg (w, tr))) =
          w\<lparr>files := (files w)(COUNTER_FN \<mapsto> File (py_str (n + 1)))\<rparr>" for c n
  proof -
    assume f: "files w COUNTER_FN = Some (File c)" and i: "py_int c = Inr n"
    from i have ne: "py_strip c \<noteq> []" by (auto simp: py_int_def)
    from i have "py_int (py_strip c) = Inr n" by (simp add: py_int_def py_strip_idem)
    with f ne show ?thesis
      by (simp add: next_commit_msg_def exists_def read_text_def write_text_def then_do_def Let_def)
  qed
  have s41: "py_str 41 = ''41''" and s42: "py_str (41 + 1) = ''42''"
    by (simp_all add: py_str_def dec_nat.simps digit_chr_def)
  have lit: "files w COUNTER_FN = Some (File ''41'') \<Longrightarrow>
      fst (next_commit_msg (w, tr)) = Inr ''Post update 42''
      \<and> fst (snd (next_commit_msg (w, tr))) = w\<lparr>files := (files w)(COUNTER_FN \<mapsto> File ''42'')\<rparr>"
    using parsed [of "py_str 41" 41] py_int_py_str [of 41] s42 unfolding s41 by simp
  from absent blank parsed [OF _ py_int_py_str] parsed lit show ?thesis by blast
qed

theorem counter_increment_witness:
  "fst (next_commit_msg (\<lparr>files = Map.empty\<rparr>, [])) = Inr ''Post update 1''
   \<and> files (fst (snd (next_commit_msg (\<lparr>files = Map.empty\<rparr>, [])))) COUNTER_FN = Some (File ''1'')
   \<and> fst (next_commit_msg (site ''41'', [])) = Inr ''Post update 42''
   \<and> files (fst (snd (next_commit_msg (site ''41'', [])))) COUNTER_FN = Some (File ''42'')
   \<and> fst (next_commit_msg (site ''  '', [])) = Inr ''Post update 1''
   \<and> fst (next_commit_msg (site (py_str 7), [])) = Inr (''Post update '' @ py_str (7 + 1))
   \<and> fst (next_commit_msg (site ''+4_1 '', [])) = Inr (''Post update '' @ py_str (41 + 1))"
proof -
  have ws: "py_strip ''  '' = []" by (simp add: py_strip_def py_isspace_def)
  have pi: "py_int ''+4_1 '' = Inr 41"
    by (simp add: py_int_def py_strip_def py_isspace_def parse_digits_def is_digit_def digit_val_def)
  show ?thesis
    using counter_increment [where w = "\<lparr>files = Map.empty\<rparr>" and N = 0 and tr = "[]"]
      counter_increment [where w = "site ''41''" and N = 0 and tr = "[]"]
      counter_increment [where w = "site ''  ''" and N = 0 and tr = "[]"]
      counter_increment [where w = "site (py_str 7)" and N = 7 and tr = "[]"]
      counter_increment [where w = "site ''+4_1 ''" and N = 41 and tr = "[]"] ws pi
    by (simp add: site_def)
qed

subsection \<open>The directory checks\<close>

text \<open>
  Claim C4. When the notes directory or the site root is not an existing directory,
  the script ends with exit status 1 after writing a message that names the missing
  path. It has started no command and written no file, and the world is the one it
  found.
\<close>

theorem missing_directory_stops_the_run:
  "(files w0 OBS_POSTS \<noteq> Some Dir \<longrightarrow>
      script exec w0 =
        (1, w0, [IsDir OBS_POSTS False,
                 Stderr ''Obsidian posts path not found: /Users/omkakkad/Obsidian/Om/posts'']))
   \<and> (files w0 OBS_POSTS = Some Dir \<and> files w0 BLOG_ROOT \<noteq> Some Dir \<longrightarrow>
      script exec w0 =
        (1, w0, [IsDir OBS_POSTS True, IsDir BLOG_ROOT False,
                 Stderr ''Hugo project path not found: /Users/omkakkad/Obsidian/OmBlog'']))
   \<and> (files w0 OBS_POSTS \<noteq> Some Dir \<or> files w0 BLOG_ROOT \<noteq> Some Dir \<longrightarrow>
      fst (script exec w0) = 1 \<and> fst (snd (script exec w0)) = w0
      \<and> actions (snd (snd (script exec w0))) = [])"
proof -
  have a: "files w0 OBS_POSTS \<noteq> Some Dir \<Longrightarrow>
      script exec w0 =
        (1, w0, [IsDir OBS_POSTS False, Stderr (''Obsidian posts path not found: '' @ OBS_POSTS)])"
    by (simp add: script_def main_def is_dir_def then_do_def guard_def)
  have b: "files w0 OBS_POSTS = Some Dir \<Longrightarrow> files w0 BLOG_ROOT \<noteq> Some Dir \<Longrightarrow>
      script exec w0 =
        (1, w0, [IsDir OBS_POSTS True, IsDir BLOG_ROOT False,
                 Stderr (''Hugo project path not found: '' @ BLOG_ROOT)])"
    by (simp add: script_def main_def is_dir_def then_do_def guard_def)
  have c: "files w0 OBS_POSTS \<noteq> Some Dir \<or> files w0 BLOG_ROOT \<noteq> Some Dir \<Longrightarrow>
      fst (script exec w0) = 1 \<and> fst (snd (script exec w0)) = w0
      \<and> actions (snd (snd (script exec w0))) = []"
    using a b by (cases "files w0 OBS_POSTS = Some Dir") (auto simp: actions_def List.map_filter_simps)
  from a b c show ?thesis
    by (simp add: OBS_POSTS_def BLOG_ROOT_def)
qed

theorem missing_directory_witness:
  "script (tools [] 0) \<lparr>files = [BLOG_ROOT \<mapsto> Dir]\<rparr> =
     (1, \<lparr>files = [BLOG_ROOT \<mapsto> Dir]\<rparr>,
      [IsDir OBS_POSTS False,
       Stderr ''Obsidian posts path not found: /Users/omkakkad/Obsidian/Om/posts''])
   \<and> script (tools [] 0) \<lparr>files = [OBS_POSTS \<mapsto> Dir]\<rparr> =
     (1, \<lparr>files = [OBS_POSTS \<mapsto> Dir]\<rparr>,
      [IsDir OBS_POSTS True, IsDir BLOG_ROOT False,
       Stderr ''Hugo project path not found: /Users/omkakkad/Obsidian/OmBlog''])"
  using missing_directory_stops_the_run [of "\<lparr>files = [BLOG_ROOT \<mapsto> Dir]\<rparr>" "tools [] 0"]
    missing_directory_stops_the_run [of "\<lparr>files = [OBS_POSTS \<mapsto> Dir]\<rparr>" "tools [] 0"]
  by (simp add: OBS_POSTS_def BLOG_ROOT_def)

subsection \<open>Evaluating sample runs\<close>

lemmas run_defs = script_def main_def guard_def then_do_def run_def print_def sleep_def
  subprocess_def check_output_def check_def next_commit_msg_def is_dir_def exists_def
  read_text_def write_text_def Let_def

lemmas sample_defs = tools_def site_def fresh_site_def cmd_defs path_defs

lemmas text_defs = py_int_def py_strip_def py_isspace_def parse_digits_def is_digit_def
  digit_val_def py_str_def dec_nat.simps digit_chr_def

lemmas trace_defs = actions_def List.map_filter_simps saved_def committed_def pushed_def
  outputs_def failed_def

subsection \<open>The mirror step\<close>

text \<open>
  Claim C8. Once both directories are found, the first thing the script does to the
  world is to start \<^verbatim>\<open>rsync -av --delete\<close> (archive mode, with deletion of what the
  source does not have) on the notes directory written with a separator at its end and
  the posts directory of the site written without one, with no working directory given.
  No run starts the synchronisation tool in any other form.
\<close>

theorem mirror_command:
  assumes "script exec w0 = (status, w_end, tr)"
  shows "(files w0 OBS_POSTS = Some Dir \<and> files w0 BLOG_ROOT = Some Dir \<longrightarrow>
            take 1 (actions tr) =
              [Run [''rsync'', ''-av'', ''--delete'', ''/Users/omkakkad/Obsidian/Om/posts/'',
                    ''/Users/omkakkad/Obsidian/OmBlog/content/posts''] None])
       \<and> (\<forall>cmd cwd. Run cmd cwd \<in> set (actions tr) \<longrightarrow> take 1 cmd = [''rsync''] \<longrightarrow>
            cmd = [''rsync'', ''-av'', ''--delete'', OBS_POSTS @ ''/'', DEST_POSTS] \<and> cwd = None)
       \<and> last (OBS_POSTS @ ''/'') = CHR ''/'' \<and> last DEST_POSTS \<noteq> CHR ''/''"
proof -
  have slashes: "last (OBS_POSTS @ ''/'') = CHR ''/'' \<and> last DEST_POSTS \<noteq> CHR ''/''"
    by (simp add: path_defs)
  from assms obtain res where m: "main exec (w0, []) = res" and o: "(status, w_end, tr) = guard res"
    by (rule script_run)
  have "case guard res of (status, w_end, tr) \<Rightarrow>
       (files w0 OBS_POSTS = Some Dir \<and> files w0 BLOG_ROOT = Some Dir \<longrightarrow>
            take 1 (actions tr) = [Run rsync_cmd None])
       \<and> (\<forall>cmd cwd. Run cmd cwd \<in> set (actions tr) \<longrightarrow> take 1 cmd = [''rsync''] \<longrightarrow>
            cmd = rsync_cmd \<and> cwd = None)"
    using m unfolding main_def Let_def
    apply (elim stepsE)
    apply (simp_all (no_asm_simp) add: guard_def actions_def List.map_filter_simps prog_of_cmd [unfolded One_nat_def]
        all_conj_distrib)
    done
  with o slashes show ?thesis
    unfolding rsync_cmd_literal by (simp add: rsync_cmd_def split: prod.splits)
qed

theorem mirror_command_witness:
  "take 1 (actions (snd (snd (script (tools [] 0) (site ''41''))))) =
     [Run [''rsync'', ''-av'', ''--delete'', ''/Users/omkakkad/Obsidian/Om/posts/'',
           ''/Users/omkakkad/Obsidian/OmBlog/content/posts''] None]
   \<and> last (''/Users/omkakkad/Obsidian/Om/posts/'') = CHR ''/''
   \<and> last (''/Users/omkakkad/Obsidian/OmBlog/content/posts'') \<noteq> CHR ''/''"
  using mirror_command [of "tools [] 0" "site ''41''" "fst (script (tools [] 0) (site ''41''))"
      "fst (snd (script (tools [] 0) (site ''41'')))" "snd (snd (script (tools [] 0) (site ''41'')))"]
  by (simp add: site_def path_defs)

subsection \<open>The image helper\<close>

text \<open>
  Claim C6. When the script finds the helper at its path, the command started after
  the mirror is \<^verbatim>\<open>python3\<close> on that path with the site root as working directory, and
  the command runner has printed its line for it. When the script does not find it,
  the command started after the mirror is the build, and the helper is started nowhere
  in the run.
\<close>

theorem image_helper_is_optional:
  assumes "script exec w0 = (status, w_end, tr)"
  shows "(Exists IMAGES_PY True \<in> set tr \<longrightarrow>
            take 2 (actions tr) =
              [Run rsync_cmd None,
               Run [''python3'', ''/Users/omkakkad/Obsidian/OmBlog/images.py'']
                   (Some ''/Users/omkakkad/Obsidian/OmBlog'')]
            \<and> Print (echo_line images_cmd) \<in> set tr)
       \<and> (Exists IMAGES_PY False \<in> set tr \<longrightarrow>
            take 2 (actions tr) = [Run rsync_cmd None, Run hugo_cmd (Some BLOG_ROOT)]
            \<and> (\<forall>cwd. Run images_cmd cwd \<notin> set (actions tr)))"
proof -
  from assms obtain res where m: "main exec (w0, []) = res" and o: "(status, w_end, tr) = guard res"
    by (rule script_run)
  have "case guard res of (status, w_end, tr) \<Rightarrow>
       (Exists IMAGES_PY True \<in> set tr \<longrightarrow>
            take 2 (actions tr) = [Run rsync_cmd None, Run images_cmd (Some BLOG_ROOT)]
            \<and> Print (echo_line images_cmd) \<in> set tr)
       \<and> (Exists IMAGES_PY False \<in> set tr \<longrightarrow>
            take 2 (actions tr) = [Run rsync_cmd None, Run hugo_cmd (Some BLOG_ROOT)]
            \<and> (\<forall>cwd. Run images_cmd cwd \<notin> set (actions tr)))"
    using m unfolding main_def Let_def
    apply (elim stepsE)
    apply (simp_all (no_asm_simp) add: guard_def actions_def List.map_filter_simps cmds_differ
        paths_differ)
    done
  with o show ?thesis unfolding images_cmd_literal BLOG_ROOT_literal by (simp split: prod.splits)
qed

theorem image_helper_witness:
  "Exists IMAGES_PY True \<in> set (snd (snd (script (tools [] 0) fresh_site)))
   \<and> take 2 (actions (snd (snd (script (tools [] 0) fresh_site)))) =
       [Run rsync_cmd None,
        Run [''python3'', ''/Users/omkakkad/Obsidian/OmBlog/images.py'']
            (Some ''/Users/omkakkad/Obsidian/OmBlog'')]
   \<and> Exists IMAGES_PY False \<in> set (snd (snd (script (tools [] 0) (site ''41''))))
   \<and> take 2 (actions (snd (snd (script (tools [] 0) (site ''41''))))) =
       [Run rsync_cmd None, Run hugo_cmd (Some BLOG_ROOT)]"
proof -
  have a: "Exists IMAGES_PY True \<in> set (snd (snd (script (tools [] 0) fresh_site)))"
    by (simp add: run_defs sample_defs)
  have b: "Exists IMAGES_PY False \<in> set (snd (snd (script (tools [] 0) (site ''41''))))"
    by (simp add: run_defs sample_defs text_defs)
  show ?thesis
    using a b
      image_helper_is_optional [of "tools [] 0" fresh_site "fst (script (tools [] 0) fresh_site)"
        "fst (snd (script (tools [] 0) fresh_site))" "snd (snd (script (tools [] 0) fresh_site))"]
      image_helper_is_optional [of "tools [] 0" "site ''41''" "fst (script (tools [] 0) (site ''41''))"
        "fst (snd (script (tools [] 0) (site ''41'')))" "snd (snd (script (tools [] 0) (site ''41'')))"]
    by simp
qed

subsection \<open>A failed build\<close>

text \<open>
  Claim C5. When the build command fails, the run has started the mirror, the helper
  if there is one, and the build, and nothing else: no command of the version-control
  client, and no write to the counter file. The world at the end is the world in which
  the build command ended, so what the mirror did to it has not been taken back.
\<close>

theorem build_failure_stops_the_run:
  assumes "script exec w0 = (status, w_end, tr)"
    and "Spawn hugo_cmd (Some BLOG_ROOT) r \<in> set tr" and "failed r"
  shows "(actions tr = [Run rsync_cmd None, Run hugo_cmd (Some BLOG_ROOT)]
          \<or> actions tr = [Run rsync_cmd None, Run images_cmd (Some BLOG_ROOT),
                           Run hugo_cmd (Some BLOG_ROOT)])
       \<and> filter is_git (actions tr) = []
       \<and> saved tr = []
       \<and> (\<exists>w. exec hugo_cmd (Some BLOG_ROOT) w = (r, w_end))"
proof -
  from assms(1) obtain res where m: "main exec (w0, []) = res"
    and o: "(status, w_end, tr) = guard res"
    by (rule script_run)
  have "case guard res of (status, w_end, tr) \<Rightarrow>
     Spawn hugo_cmd (Some BLOG_ROOT) r \<in> set tr \<longrightarrow> failed r \<longrightarrow>
       (actions tr = [Run rsync_cmd None, Run hugo_cmd (Some BLOG_ROOT)]
          \<or> actions tr = [Run rsync_cmd None, Run images_cmd (Some BLOG_ROOT),
                           Run hugo_cmd (Some BLOG_ROOT)])
       \<and> filter is_git (actions tr) = []
       \<and> saved tr = []
       \<and> (\<exists>w. exec hugo_cmd (Some BLOG_ROOT) w = (r, w_end))"
    using m unfolding main_def Let_def
    apply (elim stepsE)
    apply (simp_all (no_asm_simp) add: guard_def actions_def List.map_filter_simps saved_def
        failed_def cmds_differ prog_of_cmd [unfolded One_nat_def])
    apply (metis prod.collapse)+
    done
  with o assms(2,3) show ?thesis by (simp split: prod.splits)
qed

theorem build_failure_witness:
  "Spawn hugo_cmd (Some BLOG_ROOT) (Exited 2 []) \<in> set (snd (snd (script (tools [''hugo''] 2) (site ''41''))))
   \<and> failed (Exited 2 [])
   \<and> actions (snd (snd (script (tools [''hugo''] 2) (site ''41'')))) =
        [Run rsync_cmd None, Run hugo_cmd (Some BLOG_ROOT)]
   \<and> files (fst (snd (script (tools [''hugo''] 2) (site ''41'')))) (pjoin DEST_POSTS ''note.md'') =
        Some (File ''text'')"
proof -
  have a: "Spawn hugo_cmd (Some BLOG_ROOT) (Exited 2 []) \<in> set (snd (snd (script (tools [''hugo''] 2) (site ''41''))))"
    by (simp add: run_defs sample_defs text_defs)
  have b: "failed (Exited 2 [])" by (simp add: failed_def)
  have c: "files (fst (snd (script (tools [''hugo''] 2) (site ''41'')))) (pjoin DEST_POSTS ''note.md'') =
        Some (File ''text'')"
    by (simp add: run_defs sample_defs text_defs)
  have d: "rsync_cmd \<noteq> hugo_cmd" "images_cmd \<noteq> hugo_cmd" by (simp_all add: cmds_differ)
  show ?thesis
    using a b c d
      build_failure_stops_the_run [of "tools [''hugo''] 2" "site ''41''"
        "fst (script (tools [''hugo''] 2) (site ''41''))"
        "fst (snd (script (tools [''hugo''] 2) (site ''41'')))"
        "snd (snd (script (tools [''hugo''] 2) (site ''41'')))" "Exited 2 []"]
    apply simp
    apply (simp add: run_defs sample_defs text_defs trace_defs)
    done
qed

subsection \<open>Telling the lines and the command lines apart\<close>


lemma commit_shape:
  "take 3 rsync_cmd \<noteq> [''git'', ''commit'', ''-m'']"
  "take 3 images_cmd \<noteq> [''git'', ''commit'', ''-m'']"
  "take 3 hugo_cmd \<noteq> [''git'', ''commit'', ''-m'']"
  "take 3 add_cmd \<noteq> [''git'', ''commit'', ''-m'']"
  "take 3 branch_cmd \<noteq> [''git'', ''commit'', ''-m'']"
  "take 3 (push_cmd b) \<noteq> [''git'', ''commit'', ''-m'']"
  "take 3 (commit_cmd m) = [''git'', ''commit'', ''-m'']"
  "length (commit_cmd m) = 4" "commit_cmd m ! 3 = m"
  by (simp_all add: cmd_defs)

lemma push_shape:
  "take 3 rsync_cmd \<noteq> [''git'', ''push'', ''origin'']"
  "take 3 images_cmd \<noteq> [''git'', ''push'', ''origin'']"
  "take 3 hugo_cmd \<noteq> [''git'', ''push'', ''origin'']"
  "take 3 add_cmd \<noteq> [''git'', ''push'', ''origin'']"
  "take 3 branch_cmd \<noteq> [''git'', ''push'', ''origin'']"
  "take 3 (commit_cmd m) \<noteq> [''git'', ''push'', ''origin'']"
  "take 3 (push_cmd b) = [''git'', ''push'', ''origin'']"
  "length (push_cmd b) = 4" "push_cmd b ! 3 = b"
  by (simp_all add: cmd_defs)

subsection \<open>A failed command\<close>

text \<open>
  Claim C1 says that a command ending with a return code other than zero makes the
  whole process end with an exit status other than zero. The handler of the script
  catches the error of the command, prints its line and lets the script run off its
  end: where the push ends with code 1, the exit status of the script is 0.
\<close>

theorem failed_command_exit_status_counterexample:
  "Spawn (push_cmd ''main'') (Some BLOG_ROOT) (Exited 1 [])
     \<in> set (snd (snd (script (tools [''git'', ''push''] 1) (site ''41''))))
   \<and> fst (script (tools [''git'', ''push''] 1) (site ''41'')) = 0"
  by (simp add: run_defs sample_defs text_defs)

text \<open>
  Claim C1, amended. When a command of the run ends with a return code other than
  zero, that command is the last event of the run but one, the last event is the line
  \<^verbatim>\<open>Command failed with exit-code\<close> followed by that code, no traceback and no message on
  standard error is written, and the exit status of the script is 0. When the pipeline
  raises nothing, the run has started one commit and one push, its last event is the
  line that names the message of that commit and the branch of that push, and the exit
  status is 0.
\<close>

theorem command_failure_is_reported:
  assumes "script exec w0 = (status, w_end, tr)"
  shows "(Spawn cmd cwd (Exited rc out) \<in> set tr \<longrightarrow> rc \<noteq> 0 \<longrightarrow>
            status = 0
            \<and> take 2 (rev tr) = [Print (failed_line rc), Spawn cmd cwd (Exited rc out)]
            \<and> (\<forall>e. Traceback e \<notin> set tr) \<and> (\<forall>msg. Stderr msg \<notin> set tr))
       \<and> (fst (main exec (w0, [])) = Inr () \<longrightarrow>
            status = 0 \<and> length (committed tr) = 1 \<and> length (pushed tr) = 1
            \<and> last tr = Print (done_line (hd (committed tr)) (hd (pushed tr))))"
proof -
  from assms obtain res where m: "main exec (w0, []) = res" and o: "(status, w_end, tr) = guard res"
    by (rule script_run)
  have "case guard res of (status, w_end, tr) \<Rightarrow>
       (Spawn cmd cwd (Exited rc out) \<in> set tr \<longrightarrow> rc \<noteq> 0 \<longrightarrow>
            status = 0
            \<and> take 2 (rev tr) = [Print (failed_line rc), Spawn cmd cwd (Exited rc out)]
            \<and> (\<forall>e. Traceback e \<notin> set tr) \<and> (\<forall>msg. Stderr msg \<notin> set tr))
       \<and> (fst res = Inr () \<longrightarrow>
            status = 0 \<and> length (committed tr) = 1 \<and> length (pushed tr) = 1
            \<and> last tr = Print (done_line (hd (committed tr)) (hd (pushed tr))))"
    using m unfolding main_def Let_def
    apply (elim stepsE)
    apply (simp_all (no_asm_simp) add: guard_def committed_def pushed_def commit_shape push_shape)
    done
  with o m show ?thesis by (simp split: prod.splits)
qed

theorem command_failure_witness:
  "fst (script (tools [''git'', ''push''] 1) (site ''41'')) = 0
   \<and> take 2 (rev (snd (snd (script (tools [''git'', ''push''] 1) (site ''41''))))) =
       [Print (failed_line 1), Spawn (push_cmd ''main'') (Some BLOG_ROOT) (Exited 1 [])]
   \<and> last (snd (snd (script (tools [] 0) (site ''41'')))) =
       Print (done_line ''Post update 42'' ''main'')"
proof -
  have a: "Spawn (push_cmd ''main'') (Some BLOG_ROOT) (Exited 1 [])
     \<in> set (snd (snd (script (tools [''git'', ''push''] 1) (site ''41''))))"
    by (simp add: run_defs sample_defs text_defs)
  have b: "fst (main (tools [] 0) (site ''41'', [])) = Inr ()"
    by (simp add: run_defs sample_defs text_defs)
  have c: "committed (snd (snd (script (tools [] 0) (site ''41'')))) = [''Post update 42'']"
    by (simp add: run_defs sample_defs text_defs committed_def)
  have d: "pushed (snd (snd (script (tools [] 0) (site ''41'')))) = [''main'']"
    by (simp add: run_defs sample_defs text_defs pushed_def)
  show ?thesis
    using a b c d
      command_failure_is_reported [of "tools [''git'', ''push''] 1" "site ''41''"
        "fst (script (tools [''git'', ''push''] 1) (site ''41''))"
        "fst (snd (script (tools [''git'', ''push''] 1) (site ''41'')))"
        "snd (snd (script (tools [''git'', ''push''] 1) (site ''41'')))"
        "push_cmd ''main''" "Some BLOG_ROOT" 1 "[]"]
      command_failure_is_reported [of "tools [] 0" "site ''41''"
        "fst (script (tools [] 0) (site ''41''))"
        "fst (snd (script (tools [] 0) (site ''41'')))"
        "snd (snd (script (tools [] 0) (site ''41'')))"
        "[]" None 0 "[]"]
    by simp
qed

subsection \<open>A counter file that does not hold a number\<close>




subsection \<open>The publish step\<close>

text \<open>
  Claim C7. In a run in which the pipeline raises nothing, the commands of the
  version-control client are exactly these four, in this order: stage everything,
  commit with \<^verbatim>\<open>Post update\<close> followed by the number the counter has just written,
  ask the client for the name of the current branch, and push to \<^verbatim>\<open>origin\<close> the answer
  with the white space around it removed. In every run the commands of the client that
  were started are an initial part of that sequence, and a command that fails is the last
  thing the run does to the world, so a failure leaves the rest of the sequence out.
\<close>

theorem publish_order:
  assumes "script exec w0 = (status, w_end, tr)"
  shows "(fst (main exec (w0, [])) = Inr () \<longrightarrow>
            length (saved tr) = 1 \<and> length (outputs branch_cmd tr) = 1
            \<and> filter is_git (actions tr) =
                [Run add_cmd (Some BLOG_ROOT),
                 Run (commit_cmd (''Post update '' @ hd (saved tr))) (Some BLOG_ROOT),
                 Run branch_cmd (Some BLOG_ROOT),
                 Run (push_cmd (py_strip (hd (outputs branch_cmd tr)))) (Some BLOG_ROOT)])
       \<and> (\<exists>v b. prefix (filter is_git (actions tr))
                [Run [''git'', ''add'', ''.''] (Some BLOG_ROOT),
                 Run [''git'', ''commit'', ''-m'', ''Post update '' @ v] (Some BLOG_ROOT),
                 Run [''git'', ''rev-parse'', ''--abbrev-ref'', ''HEAD''] (Some BLOG_ROOT),
                 Run [''git'', ''push'', ''origin'', b] (Some BLOG_ROOT)])
       \<and> (\<forall>cmd cwd r. Spawn cmd cwd r \<in> set tr \<longrightarrow> failed r \<longrightarrow>
              last (actions tr) = Run cmd cwd)"
proof -
  from assms obtain res where m: "main exec (w0, []) = res" and o: "(status, w_end, tr) = guard res"
    by (rule script_run)
  have "case guard res of (status, w_end, tr) \<Rightarrow>
       (fst res = Inr () \<longrightarrow>
            length (saved tr) = 1 \<and> length (outputs branch_cmd tr) = 1
            \<and> filter is_git (actions tr) =
                [Run add_cmd (Some BLOG_ROOT),
                 Run (commit_cmd (''Post update '' @ hd (saved tr))) (Some BLOG_ROOT),
                 Run branch_cmd (Some BLOG_ROOT),
                 Run (push_cmd (py_strip (hd (outputs branch_cmd tr)))) (Some BLOG_ROOT)])
       \<and> (\<exists>v b. prefix (filter is_git (actions tr))
                [Run add_cmd (Some BLOG_ROOT),
                 Run (commit_cmd (''Post update '' @ v)) (Some BLOG_ROOT),
                 Run branch_cmd (Some BLOG_ROOT),
                 Run (push_cmd b) (Some BLOG_ROOT)])
       \<and> (\<forall>cmd cwd r. Spawn cmd cwd r \<in> set tr \<longrightarrow> failed r \<longrightarrow>
              last (actions tr) = Run cmd cwd)"
    using m unfolding main_def Let_def
    apply (elim stepsE)
    apply (simp_all (no_asm_simp) add: guard_def actions_def List.map_filter_simps saved_def
        outputs_def failed_def cmds_differ prog_of_cmd [unfolded One_nat_def]
        commit_cmd_inject push_cmd_inject all_conj_distrib)
    done
  with o m show ?thesis by (simp add: cmd_defs split: prod.splits)
qed

theorem publish_order_witness:
  "filter is_git (actions (snd (snd (script (tools [] 0) (site ''41''))))) =
     [Run add_cmd (Some BLOG_ROOT),
      Run (commit_cmd ''Post update 42'') (Some BLOG_ROOT),
      Run branch_cmd (Some BLOG_ROOT),
      Run (push_cmd ''main'') (Some BLOG_ROOT)]
   \<and> last (actions (snd (snd (script (tools [''git'', ''commit''] 1) (site ''41''))))) =
       Run (commit_cmd ''Post update 42'') (Some BLOG_ROOT)"
proof -
  have a: "fst (main (tools [] 0) (site ''41'', [])) = Inr ()"
    by (simp add: run_defs sample_defs text_defs)
  have b: "saved (snd (snd (script (tools [] 0) (site ''41'')))) = [''42'']"
    by (simp add: run_defs sample_defs text_defs saved_def)
  have c: "outputs branch_cmd (snd (snd (script (tools [] 0) (site ''41'')))) = [''main'' @ [CHR 0x0A]]"
    by (simp add: run_defs sample_defs text_defs outputs_def)
  have d: "py_strip (''main'' @ [CHR 0x0A]) = ''main''"
    by (simp add: py_strip_def py_isspace_def)
  have e: "Spawn (commit_cmd ''Post update 42'') (Some BLOG_ROOT) (Exited 1 [])
     \<in> set (snd (snd (script (tools [''git'', ''commit''] 1) (site ''41''))))"
    by (simp add: run_defs sample_defs text_defs)
  have f: "failed (Exited 1 [])" by (simp add: failed_def)
  show ?thesis
    using a b c d e f
      publish_order [of "tools [] 0" "site ''41''"
        "fst (script (tools [] 0) (site ''41''))"
        "fst (snd (script (tools [] 0) (site ''41'')))"
        "snd (snd (script (tools [] 0) (site ''41'')))"]
      publish_order [of "tools [''git'', ''commit''] 1" "site ''41''"
        "fst (script (tools [''git'', ''commit''] 1) (site ''41''))"
        "fst (snd (script (tools [''git'', ''commit''] 1) (site ''41'')))"
        "snd (snd (script (tools [''git'', ''commit''] 1) (site ''41'')))"]
    by simp
qed

subsection \<open>The counter and the commit\<close>

text \<open>
  Claim C9. What a run does to the world is always an initial part of the plan, in
  which staging comes right before the write to the counter file and the commit right
  after it: the counter is never written before everything has been staged, and never
  after the commit has been started. With a client that keeps snapshots, a run in which
  the pipeline raises nothing ends with a last commit whose copy of the counter file
  reads as a number \<open>n\<close>, while the file in the working tree holds the decimal text of
  \<open>n + 1\<close>: the commit does not hold the value written in the same run.
\<close>

theorem counter_written_after_staging:
  assumes "script exec w0 = (status, w_end, tr)"
  shows "(\<exists>helper v b. prefix (actions tr) (plan helper v b))
       \<and> (snapshots exec \<longrightarrow> fst (main exec (w0, [])) = Inr () \<longrightarrow>
            stored_value (head_counter w_end) \<noteq> None
            \<and> files w_end COUNTER_FN =
                map_option (\<lambda>n. File (py_str (n + 1))) (stored_value (head_counter w_end))
            \<and> stored_value (files w_end COUNTER_FN) =
                map_option (\<lambda>n. n + 1) (stored_value (head_counter w_end))
            \<and> head_counter w_end \<noteq> files w_end COUNTER_FN)"
proof -
  from assms obtain res where m: "main exec (w0, []) = res" and o: "(status, w_end, tr) = guard res"
    by (rule script_run)
  have "case guard res of (status, w_end, tr) \<Rightarrow>
       (\<exists>helper v b. prefix (actions tr) (plan helper v b))
       \<and> (snapshots exec \<longrightarrow> fst res = Inr () \<longrightarrow>
            stored_value (head_counter w_end) \<noteq> None
            \<and> files w_end COUNTER_FN =
                map_option (\<lambda>n. File (py_str (n + 1))) (stored_value (head_counter w_end))
            \<and> stored_value (files w_end COUNTER_FN) =
                map_option (\<lambda>n. n + 1) (stored_value (head_counter w_end)))"
    using m unfolding main_def Let_def
    apply (elim stepsE)
    apply (simp_all (no_asm_simp) add: guard_def actions_def List.map_filter_simps plan_def
        ex_bool_eq cmds_differ commit_cmd_inject push_cmd_inject snapshots_def leaves_counter_def
        stored_value_None stored_value_py_str)
    done
  then have main_part: "(\<exists>helper v b. prefix (actions tr) (plan helper v b))
       \<and> (snapshots exec \<longrightarrow> fst (main exec (w0, [])) = Inr () \<longrightarrow>
            stored_value (head_counter w_end) \<noteq> None
            \<and> files w_end COUNTER_FN =
                map_option (\<lambda>n. File (py_str (n + 1))) (stored_value (head_counter w_end))
            \<and> stored_value (files w_end COUNTER_FN) =
                map_option (\<lambda>n. n + 1) (stored_value (head_counter w_end)))"
    unfolding m o [symmetric] prod.case .
  have "head_counter w_end \<noteq> files w_end COUNTER_FN"
    if "stored_value (head_counter w_end) \<noteq> None"
      and "stored_value (files w_end COUNTER_FN) =
                map_option (\<lambda>n. n + 1) (stored_value (head_counter w_end))"
    using that by auto
  with main_part show ?thesis by blast
qed

theorem counter_written_after_staging_witness:
  "snapshots git_tools
   \<and> head_counter (fst (snd (script git_tools (repo_site ''41'')))) = Some (File ''41'')
   \<and> files (fst (snd (script git_tools (repo_site ''41'')))) COUNTER_FN = Some (File ''42'')"
proof -
  have a: "snapshots git_tools"
    by (simp add: snapshots_def leaves_counter_def git_tools_def cmd_defs)
  have b: "fst (main git_tools (repo_site ''41'', [])) = Inr ()"
    by (simp add: run_defs git_tools_def repo_site_def cmd_defs path_defs text_defs)
  have c: "head_counter (fst (snd (script git_tools (repo_site ''41'')))) = Some (File ''41'')"
    by (simp add: run_defs git_tools_def repo_site_def cmd_defs path_defs text_defs)
  have d: "stored_value (Some (File ''41'')) = Some 41"
    by (simp add: stored_value_def text_defs)
  have e: "py_str (41 + 1) = ''42''"
    by (simp add: text_defs)
  show ?thesis
    using a b c d e
      counter_written_after_staging [of git_tools "repo_site ''41''"
        "fst (script git_tools (repo_site ''41''))"
        "fst (snd (script git_tools (repo_site ''41'')))"
        "snd (snd (script git_tools (repo_site ''41'')))"]
    by simp
qed

text \<open>
  Claim C10. Let the client leave the counter alone. When a commit or a push of the run
  fails, the run has written the counter file once, before it started the commit; the
  message of that commit is \<^verbatim>\<open>Post update\<close> followed by the text written; the file
  holds that text at the end of the run; and the text is \<^verbatim>\<open>1\<close> when the script found no
  file, and the decimal text of one more than the number read otherwise. The failed run
  has used up a number.
\<close>

theorem counter_kept_when_publish_fails:
  assumes "script exec w0 = (status, w_end, tr)"
    and "leaves_counter exec"
    and "Spawn cmd cwd r \<in> set tr" and "failed r"
    and "cmd = commit_cmd m \<or> cmd = push_cmd b"
  shows "length (saved tr) = 1
       \<and> files w_end COUNTER_FN = Some (File (hd (saved tr)))
       \<and> committed tr = [''Post update '' @ hd (saved tr)]
       \<and> Save COUNTER_FN (hd (saved tr))
            \<in> set (takeWhile (\<lambda>a. a \<noteq> Run (commit_cmd (''Post update '' @ hd (saved tr)))
                                          (Some BLOG_ROOT)) (actions tr))
       \<and> (Exists COUNTER_FN False \<in> set tr \<longrightarrow> hd (saved tr) = ''1'')
       \<and> (\<forall>c. ReadText COUNTER_FN c \<in> set tr \<longrightarrow>
             map_option (\<lambda>n. py_str (n + 1)) (stored_value (Some (File c))) = Some (hd (saved tr)))"
proof -
  from assms(1) obtain res where m: "main exec (w0, []) = res"
    and o: "(status, w_end, tr) = guard res"
    by (rule script_run)
  note keep = assms(2) [unfolded leaves_counter_def]
  have "case guard res of (status, w_end, tr) \<Rightarrow>
     Spawn cmd cwd r \<in> set tr \<longrightarrow> failed r \<longrightarrow> cmd = commit_cmd m \<or> cmd = push_cmd b \<longrightarrow>
       length (saved tr) = 1
       \<and> files w_end COUNTER_FN = Some (File (hd (saved tr)))
       \<and> committed tr = [''Post update '' @ hd (saved tr)]
       \<and> Save COUNTER_FN (hd (saved tr))
            \<in> set (takeWhile (\<lambda>a. a \<noteq> Run (commit_cmd (''Post update '' @ hd (saved tr)))
                                          (Some BLOG_ROOT)) (actions tr))
       \<and> (Exists COUNTER_FN False \<in> set tr \<longrightarrow> hd (saved tr) = ''1'')
       \<and> (\<forall>c. ReadText COUNTER_FN c \<in> set tr \<longrightarrow>
             map_option (\<lambda>n. py_str (n + 1)) (stored_value (Some (File c))) = Some (hd (saved tr)))"
    using m unfolding main_def Let_def
    apply (elim stepsE)
    apply (simp_all (no_asm_simp) add: guard_def actions_def List.map_filter_simps saved_def
        committed_def failed_def cmds_differ commit_shape commit_cmd_inject push_cmd_inject keep
        paths_differ py_str_1)
    done
  with o assms(3,4,5) show ?thesis by (simp split: prod.splits)
qed

theorem counter_kept_witness:
  "leaves_counter (tools [''git'', ''push''] 1 :: unit exec)
   \<and> files (fst (snd (script (tools [''git'', ''push''] 1) (site ''41'')))) COUNTER_FN =
       Some (File ''42'')
   \<and> files (fst (snd (script (tools [''git'', ''commit''] 1) (site ''41'')))) COUNTER_FN =
       Some (File ''42'')"
proof -
  have a: "leaves_counter (tools broken rc :: unit exec)" for broken rc
    by (simp add: leaves_counter_def tools_def cmds_differ)
  have b: "Spawn (push_cmd ''main'') (Some BLOG_ROOT) (Exited 1 [])
     \<in> set (snd (snd (script (tools [''git'', ''push''] 1) (site ''41''))))"
    by (simp add: run_defs sample_defs text_defs)
  have c: "Spawn (commit_cmd ''Post update 42'') (Some BLOG_ROOT) (Exited 1 [])
     \<in> set (snd (snd (script (tools [''git'', ''commit''] 1) (site ''41''))))"
    by (simp add: run_defs sample_defs text_defs)
  have d: "failed (Exited 1 [])" by (simp add: failed_def)
  have e: "saved (snd (snd (script (tools [''git'', ''push''] 1) (site ''41'')))) = [''42'']"
    "saved (snd (snd (script (tools [''git'', ''commit''] 1) (site ''41'')))) = [''42'']"
    by (simp_all add: run_defs sample_defs text_defs saved_def)
  show ?thesis
    using a [of "[''git'', ''push'']" 1] a [of "[''git'', ''commit'']" 1] b c d e
      counter_kept_when_publish_fails [of "tools [''git'', ''push''] 1" "site ''41''"
        "fst (script (tools [''git'', ''push''] 1) (site ''41''))"
        "fst (snd (script (tools [''git'', ''push''] 1) (site ''41'')))"
        "snd (snd (script (tools [''git'', ''push''] 1) (site ''41'')))"
        "push_cmd ''main''" "Some BLOG_ROOT" "Exited 1 []" "[]" "''main''"]
      counter_kept_when_publish_fails [of "tools [''git'', ''commit''] 1" "site ''41''"
        "fst (script (tools [''git'', ''commit''] 1) (site ''41''))"
        "fst (snd (script (tools [''git'', ''commit''] 1) (site ''41'')))"
        "snd (snd (script (tools [''git'', ''commit''] 1) (site ''41'')))"
        "commit_cmd ''Post update 42''" "Some BLOG_ROOT" "Exited 1 []" "''Post update 42''" "[]"]
    by simp
qed

end
